theory Spec2Isabelle
  imports Main "HOL-Library.Word"
begin

unbundle bit_operations_syntax

section \<open>The operating system as seen by the two servers\<close>

text \<open>
  Both programs are a \<open>main\<close> that talks to the kernel only.  A run is modelled
  by the list of calls the program issues, in program order, and the kernel's
  answers are inputs of the model.  Descriptors and byte counts are C \<open>int\<close>s
  that are only compared, never computed with, so they are \<open>int\<close>; flag and
  event masks are combined bitwise, so they are words.
\<close>

datatype sys_event =
    SysSocket
  | SysBind int
  | SysListen int
  | SysFcntlGet int
  | SysFcntlSet int "32 word"
  | SysEpollCreate
  | SysEpollAdd int int "32 word"
  | SysEpollDel int int
  | SysEpollWait int nat
  | SysPoll
  | SysAccept int
  | SysRead int nat
  | SysWrite int string
  | SysClose int
  | Perror string
  | Cout string
  | ReadPastBuffer

text \<open>How \<open>main\<close> stands when the model stops: it returned, or it is still looping.\<close>

datatype outcome = Exited int | Running

text \<open>
  What \<open>read(fd, buf, n)\<close> can answer: an error (the call returns \<open>-1\<close> and
  \<open>errno\<close> is set), or the bytes the kernel has for the descriptor, of which it
  copies at most \<open>n\<close> to the front of \<open>buf\<close> and returns how many; no bytes is
  end of file.
\<close>

datatype read_outcome = RdError int | RdBytes string

definition EAGAIN :: int where
  "EAGAIN = 11"

definition ECONNRESET :: int where
  "ECONNRESET = 104"

fun sys_read :: "read_outcome \<Rightarrow> nat \<Rightarrow> string \<Rightarrow> int \<times> string" where
  "sys_read (RdError e) n buf = (- 1, buf)"
| "sys_read (RdBytes avail) n buf =
     (int (length (take n avail)), take n avail @ drop (length (take n avail)) buf)"

definition CRLF :: string where
  "CRLF = [CHR 0x0D, CHR 0x0A]"

section \<open>The epoll server (src/server/http_server.cpp)\<close>

definition MAX_EVENTS :: nat where
  "MAX_EVENTS = 10"

definition O_NONBLOCK :: "32 word" where
  "O_NONBLOCK = 0x800"

definition EPOLLIN :: "32 word" where
  "EPOLLIN = 0x001"

definition EPOLLET :: "32 word" where
  "EPOLLET = 0x80000000"

text \<open>
  \<open>make_socket_non_blocking\<close>: the two \<open>fcntl\<close> answers are inputs; the result is
  the function's return value and the calls it made.
\<close>

definition make_socket_non_blocking ::
  "int \<Rightarrow> 32 word \<Rightarrow> 32 word \<Rightarrow> 32 word \<times> sys_event list" where
  "make_socket_non_blocking fd getfl_ret setfl_ret =
     (let flags = getfl_ret in
      if flags = - 1 then (- 1, [SysFcntlGet fd])
      else (setfl_ret, [SysFcntlGet fd, SysFcntlSet fd (flags OR O_NONBLOCK)]))"

text \<open>The response literal, line by line as the source writes it.\<close>

definition response :: string where
  "response =
     ''HTTP/1.1 200 OK'' @ CRLF @
     ''Content-Type: text/plain'' @ CRLF @
     ''Content-Length: 13'' @ CRLF @
     ''Connection: close'' @ CRLF @
     CRLF @
     ''Hello, world!''"

text \<open>The kernel's answers while one ready event is handled.\<close>

record event_env =
  ee_accept :: int
  ee_getfl :: "32 word"
  ee_setfl :: "32 word"
  ee_read :: read_outcome
  ee_buf :: string

text \<open>
  The body of the \<open>for\<close> loop over the ready events: \<open>ev_fd\<close> is
  \<open>events[i].data.fd\<close>.  The listening descriptor is accepted from; any other
  descriptor is read once into the 4096-byte stack buffer \<open>ee_buf\<close>.
\<close>

definition handle_event :: "int \<Rightarrow> int \<Rightarrow> int \<Rightarrow> event_env \<Rightarrow> sys_event list" where
  "handle_event epoll_fd listen_fd ev_fd env =
     (if ev_fd = listen_fd then
        (let client_fd = ee_accept env in
         if client_fd = - 1 then [SysAccept listen_fd, Perror ''accept'']
         else
           [SysAccept listen_fd]
           @ snd (make_socket_non_blocking client_fd (ee_getfl env) (ee_setfl env))
           @ [SysEpollAdd epoll_fd client_fd (EPOLLIN OR EPOLLET)])
      else
        (let client_fd = ev_fd;
             count = fst (sys_read (ee_read env) 4096 (ee_buf env)) in
         if count \<le> 0 then
           [SysRead client_fd 4096, SysClose client_fd, SysEpollDel epoll_fd client_fd]
         else
           [SysRead client_fd 4096, SysWrite client_fd response,
            SysClose client_fd, SysEpollDel epoll_fd client_fd]))"

text \<open>
  One batch: \<open>for (i = 0; i < n; ++i)\<close> over the vector \<open>events\<close> that
  \<open>epoll_wait\<close> filled.  A negative \<open>n\<close> runs the body no time.
\<close>

fun handle_events ::
  "int \<Rightarrow> int \<Rightarrow> int list \<Rightarrow> (nat \<Rightarrow> event_env) \<Rightarrow> nat list \<Rightarrow> sys_event list" where
  "handle_events epoll_fd listen_fd events envs [] = []"
| "handle_events epoll_fd listen_fd events envs (i # is) =
     handle_event epoll_fd listen_fd (events ! i) (envs i)
     @ handle_events epoll_fd listen_fd events envs is"

record wait_env =
  ew_n :: int
  ew_events :: "int list"
  ew_envs :: "nat \<Rightarrow> event_env"

text \<open>
  The \<open>while (true)\<close> loop, run for as many rounds as there are answers of
  \<open>epoll_wait\<close>.  Nothing in the body leaves the loop.
\<close>

fun epoll_loop :: "int \<Rightarrow> int \<Rightarrow> wait_env list \<Rightarrow> sys_event list" where
  "epoll_loop epoll_fd listen_fd [] = []"
| "epoll_loop epoll_fd listen_fd (w # ws) =
     SysEpollWait epoll_fd MAX_EVENTS
     # handle_events epoll_fd listen_fd (ew_events w) (ew_envs w) [0 ..< nat (ew_n w)]
     @ epoll_loop epoll_fd listen_fd ws"

record setup_env =
  se_socket :: int
  se_bind :: int
  se_listen :: int
  se_getfl :: "32 word"
  se_setfl :: "32 word"
  se_epoll_create :: int
  se_epoll_ctl :: int

definition http_server_main :: "setup_env \<Rightarrow> wait_env list \<Rightarrow> outcome \<times> sys_event list" where
  "http_server_main se ws =
     (let listen_fd = se_socket se in
      if listen_fd < 0 then (Exited 1, [SysSocket, Perror ''socket''])
      else if se_bind se < 0 then
        (Exited 1, [SysSocket, SysBind listen_fd, Perror ''bind''])
      else if se_listen se < 0 then
        (Exited 1, [SysSocket, SysBind listen_fd, SysListen listen_fd, Perror ''listen''])
      else
        (let pre = [SysSocket, SysBind listen_fd, SysListen listen_fd]
                   @ snd (make_socket_non_blocking listen_fd (se_getfl se) (se_setfl se))
                   @ [SysEpollCreate];
             epoll_fd = se_epoll_create se in
         if epoll_fd = - 1 then (Exited 1, pre @ [Perror ''epoll_create1''])
         else if se_epoll_ctl se = - 1 then
           (Exited 1, pre @ [SysEpollAdd epoll_fd listen_fd EPOLLIN, Perror ''epoll_ctl''])
         else
           (Running,
            pre @ [SysEpollAdd epoll_fd listen_fd EPOLLIN,
                   Cout ''HTTP server running on port 8080'']
            @ epoll_loop epoll_fd listen_fd ws)))"

section \<open>The poll server (src/server.cpp)\<close>

definition MAX_CLIENTS :: nat where
  "MAX_CLIENTS = 10"

definition POLLIN :: "16 word" where
  "POLLIN = 0x0001"

definition NUL :: char where
  "NUL = CHR 0x00"

record pollfd =
  fd :: int
  events :: "16 word"
  revents :: "16 word"

text \<open>
  \<open>struct pollfd fds[MAX_CLIENTS + 1]\<close> is a local array that is not
  initialised: \<open>mem\<close> is what the stack holds, \<open>MAX_CLIENTS + 1\<close> entries.  Entry 0
  is filled in full, the entries 1 to \<open>MAX_CLIENTS\<close> only get their \<open>fd\<close> set to \<open>-1\<close>.
\<close>

fun clear_slots :: "nat list \<Rightarrow> pollfd list \<Rightarrow> pollfd list" where
  "clear_slots [] fds = fds"
| "clear_slots (i # is) fds = clear_slots is (fds[i := (fds ! i)\<lparr>fd := - 1\<rparr>])"

definition init_fds :: "int \<Rightarrow> pollfd list \<Rightarrow> pollfd list" where
  "init_fds server_fd mem =
     clear_slots [1 ..< MAX_CLIENTS + 1]
       (mem[0 := \<lparr>fd = server_fd, events = POLLIN, revents = 0\<rparr>])"

text \<open>A successful \<open>poll\<close> stores the kernel's answer in every entry's \<open>revents\<close>.\<close>

definition sys_poll :: "(nat \<Rightarrow> 16 word) \<Rightarrow> pollfd list \<Rightarrow> pollfd list" where
  "sys_poll answer fds = map (\<lambda>i. (fds ! i)\<lparr>revents := answer i\<rparr>) [0 ..< length fds]"

text \<open>
  The inner loop of the accept branch: the first slot whose \<open>fd\<close> is \<open>-1\<close> takes
  the new descriptor, and the loop is left.  When no slot is free, the loop
  ends and nothing was done.
\<close>

fun add_client :: "nat list \<Rightarrow> int \<Rightarrow> pollfd list \<Rightarrow> pollfd list" where
  "add_client [] client_fd fds = fds"
| "add_client (i # is) client_fd fds =
     (if fd (fds ! i) = - 1 then fds[i := (fds ! i)\<lparr>fd := client_fd, events := POLLIN\<rparr>]
      else add_client is client_fd fds)"

definition accept_step ::
  "int \<Rightarrow> int \<Rightarrow> pollfd list \<Rightarrow> pollfd list \<times> sys_event list" where
  "accept_step server_fd accept_ret fds =
     (if revents (fds ! 0) AND POLLIN \<noteq> 0 then
        (let client_fd = accept_ret in
         if client_fd \<ge> 0 then
           (add_client [1 ..< MAX_CLIENTS + 1] client_fd fds,
            [SysAccept server_fd, Cout ''New connection accepted''])
         else (fds, [SysAccept server_fd, Perror ''Accept failed'']))
      else (fds, []))"

text \<open>
  \<open>std::cout << buffer\<close> prints the bytes of the array up to the first NUL;
  with no NUL in the array it would run past its end.
\<close>

definition c_str :: "string \<Rightarrow> string option" where
  "c_str buf = (if NUL \<in> set buf then Some (takeWhile (\<lambda>c. c \<noteq> NUL) buf) else None)"

definition print_buffer :: "string \<Rightarrow> sys_event" where
  "print_buffer buf =
     (case c_str buf of
        Some s \<Rightarrow> Cout (''Received data from client: '' @ s)
      | None \<Rightarrow> ReadPastBuffer)"

text \<open>\<open>char buffer[1024] = {0}\<close>\<close>

definition buffer :: string where
  "buffer = replicate 1024 NUL"

text \<open>
  The body of the loop over the client slots, for slot \<open>i\<close>; \<open>rd\<close> is the
  kernel's answer to the read, if one is issued.
\<close>

definition service_client ::
  "nat \<Rightarrow> read_outcome \<Rightarrow> pollfd list \<Rightarrow> pollfd list \<times> sys_event list" where
  "service_client i rd fds =
     (if fd (fds ! i) \<noteq> - 1 \<and> revents (fds ! i) AND POLLIN \<noteq> 0 then
        (let r = sys_read rd (length buffer - 1) buffer;
             bytes_read = fst r in
         if bytes_read > 0 then
           (fds, [SysRead (fd (fds ! i)) (length buffer - 1), print_buffer (snd r)])
         else
           (fds[i := (fds ! i)\<lparr>fd := - 1\<rparr>],
            [SysRead (fd (fds ! i)) (length buffer - 1),
             Cout ''Client disconnected'',
             SysClose (fd (fds ! i))]))
      else (fds, []))"

fun service_clients ::
  "nat list \<Rightarrow> (nat \<Rightarrow> read_outcome) \<Rightarrow> pollfd list \<Rightarrow> pollfd list \<times> sys_event list" where
  "service_clients [] rds fds = (fds, [])"
| "service_clients (i # is) rds fds =
     (let a = service_client i (rds i) fds;
          b = service_clients is rds (fst a)
      in (fst b, snd a @ snd b))"

record poll_env =
  pe_ready :: int
  pe_revents :: "nat \<Rightarrow> 16 word"
  pe_accept :: int
  pe_read :: "nat \<Rightarrow> read_outcome"

text \<open>
  The \<open>while (true)\<close> loop, one round for each answer of \<open>poll\<close>.  The first
  component says whether the loop was left by \<open>break\<close>.
\<close>

fun poll_loop ::
  "int \<Rightarrow> poll_env list \<Rightarrow> pollfd list \<Rightarrow> bool \<times> pollfd list \<times> sys_event list" where
  "poll_loop server_fd [] fds = (False, fds, [])"
| "poll_loop server_fd (e # es) fds =
     (if pe_ready e < 0 then (True, fds, [SysPoll, Perror ''Poll failed''])
      else
        (let fds1 = sys_poll (pe_revents e) fds;
             a = accept_step server_fd (pe_accept e) fds1;
             s = service_clients [1 ..< MAX_CLIENTS + 1] (pe_read e) (fst a);
             rest = poll_loop server_fd es (fst s)
         in (fst rest, fst (snd rest), SysPoll # snd a @ snd s @ snd (snd rest))))"

record server_env =
  sv_socket :: int
  sv_bind :: int
  sv_listen :: int
  sv_mem :: "pollfd list"

definition server_main :: "server_env \<Rightarrow> poll_env list \<Rightarrow> outcome \<times> sys_event list" where
  "server_main sv es =
     (let server_fd = sv_socket sv in
      if server_fd = - 1 then (Exited 1, [SysSocket, Perror ''Socket creation failed''])
      else if sv_bind sv < 0 then
        (Exited 1, [SysSocket, SysBind server_fd, Perror ''Bind failed''])
      else if sv_listen sv < 0 then
        (Exited 1, [SysSocket, SysBind server_fd, SysListen server_fd, Perror ''Listen failed''])
      else
        (let pre = [SysSocket, SysBind server_fd, SysListen server_fd,
                    Cout ''TCP Server started on port 8080''];
             l = poll_loop server_fd es (init_fds server_fd (sv_mem sv)) in
         if fst l then (Exited 0, pre @ snd (snd l) @ [SysClose server_fd])
         else (Running, pre @ snd (snd l))))"

section \<open>Reading a run\<close>

text \<open>The byte strings written to a descriptor in a run, in order.\<close>

fun written :: "int \<Rightarrow> sys_event list \<Rightarrow> string list" where
  "written d [] = []"
| "written d (SysWrite d' s # t) = (if d' = d then s # written d t else written d t)"
| "written d (_ # t) = written d t"

text \<open>The descriptors closed in a run, in order.\<close>

fun closed_fds :: "sys_event list \<Rightarrow> int list" where
  "closed_fds [] = []"
| "closed_fds (SysClose d # t) = d # closed_fds t"
| "closed_fds (_ # t) = closed_fds t"



subsection \<open>Concrete kernels\<close>

text \<open>Stack contents for the poll table, and a setup where every call succeeds.\<close>

definition mem0 :: "pollfd list" where
  "mem0 = replicate 11 \<lparr>fd = 0, events = 0, revents = 0\<rparr>"

definition server_ok :: server_env where
  "server_ok = \<lparr>sv_socket = 3, sv_bind = 0, sv_listen = 0, sv_mem = mem0\<rparr>"

text \<open>A round of \<open>poll\<close> in which only the listening socket is ready and \<open>accept\<close> returns \<open>c\<close>.\<close>

definition connect_round :: "int \<Rightarrow> poll_env" where
  "connect_round c =
     \<lparr>pe_ready = 1, pe_revents = (\<lambda>i. if i = 0 then POLLIN else 0),
      pe_accept = c, pe_read = (\<lambda>i. RdBytes [])\<rparr>"

text \<open>A round of \<open>poll\<close> in which only slot \<open>k\<close> is ready and its read answers \<open>rd\<close>.\<close>

definition data_round :: "nat \<Rightarrow> read_outcome \<Rightarrow> poll_env" where
  "data_round k rd =
     \<lparr>pe_ready = 1, pe_revents = (\<lambda>i. if i = k then POLLIN else 0),
      pe_accept = - 1, pe_read = (\<lambda>i. rd)\<rparr>"

text \<open>A round in which \<open>poll\<close> itself fails.\<close>

definition failed_round :: poll_env where
  "failed_round =
     \<lparr>pe_ready = - 1, pe_revents = (\<lambda>i. 0), pe_accept = - 1, pe_read = (\<lambda>i. RdBytes [])\<rparr>"

text \<open>
  The poll table after the server on descriptor 3 accepted descriptor 5 into
  slot 1 and a later \<open>poll\<close> reported that slot readable.
\<close>

definition one_client_ready :: "pollfd list" where
  "one_client_ready =
     sys_poll (\<lambda>i. if i = 1 then POLLIN else 0)
       (fst (snd (poll_loop 3 [connect_round 5] (init_fds 3 mem0))))"


text \<open>The kernel's answers for an epoll event on a client whose read answers \<open>rd\<close>.\<close>

definition client_event :: "read_outcome \<Rightarrow> event_env" where
  "client_event rd =
     \<lparr>ee_accept = - 1, ee_getfl = 0, ee_setfl = 0, ee_read = rd, ee_buf = []\<rparr>"

section \<open>Facts about the read buffer of the poll server\<close>

lemma buffer_after_read_length:
  "length (snd (sys_read rd (length buffer - 1) buffer)) = 1024"
  by (cases rd) (simp_all add: buffer_def)

lemma buffer_after_read_last:
  "snd (sys_read rd (length buffer - 1) buffer) ! 1023 = NUL"
  by (cases rd) (simp_all add: buffer_def nth_append)

lemma buffer_after_read_has_NUL:
  "NUL \<in> set (snd (sys_read rd (length buffer - 1) buffer))"
proof -
  let ?b = "snd (sys_read rd (length buffer - 1) buffer)"
  have "1023 < length ?b"
    using buffer_after_read_length [of rd] by simp
  then have "?b ! 1023 \<in> set ?b"
    by (rule nth_mem)
  then show ?thesis
    using buffer_after_read_last [of rd] by simp
qed

lemma read_count_le: "fst (sys_read rd n buf) \<le> int n"
  by (cases rd) simp_all

lemma print_buffer_after_read:
  "print_buffer (snd (sys_read rd (length buffer - 1) buffer)) =
     Cout (''Received data from client: ''
           @ takeWhile (\<lambda>c. c \<noteq> NUL) (snd (sys_read rd (length buffer - 1) buffer)))"
  using buffer_after_read_has_NUL [of rd] by (simp add: print_buffer_def c_str_def)

lemma takeWhile_length_less:
  "x \<in> set xs \<Longrightarrow> \<not> P x \<Longrightarrow> length (takeWhile P xs) < length xs"
  by (induction xs) auto

lemma service_client_released:
  "fd (fds ! i) = - 1 \<Longrightarrow> service_client i rd fds = (fds, [])"
  by (simp add: service_client_def)

lemma service_client_disconnect:
  assumes "fd (fds ! i) \<noteq> - 1"
    and "revents (fds ! i) AND POLLIN \<noteq> 0"
    and "fst (sys_read rd (length buffer - 1) buffer) \<le> 0"
  shows "service_client i rd fds =
      (fds[i := (fds ! i)\<lparr>fd := - 1\<rparr>],
       [SysRead (fd (fds ! i)) 1023, Cout ''Client disconnected'', SysClose (fd (fds ! i))])"
proof -
  have "length buffer - 1 = 1023"
    by (simp add: buffer_def)
  with assms show ?thesis
    by (simp add: service_client_def Let_def)
qed

lemma add_client_no_free_slot:
  "\<forall>i \<in> set is. fd (fds ! i) \<noteq> - 1 \<Longrightarrow> add_client is client_fd fds = fds"
  by (induction "is") simp_all

lemma accept_step_no_free_slot:
  assumes "\<forall>i \<in> set [1 ..< MAX_CLIENTS + 1]. fd (fds ! i) \<noteq> - 1"
    and "revents (fds ! 0) AND POLLIN \<noteq> 0"
    and "0 \<le> client_fd"
  shows "accept_step server_fd client_fd fds =
           (fds, [SysAccept server_fd, Cout ''New connection accepted''])"
  using assms(2,3) add_client_no_free_slot [OF assms(1)]
  by (simp add: accept_step_def)

lemma one_client_ready_slot:
  "1 < length one_client_ready"
  "fd (one_client_ready ! 1) = 5"
  "revents (one_client_ready ! 1) AND POLLIN \<noteq> 0"
  by code_simp+

section \<open>Properties of the epoll server\<close>




text \<open>
  C4.  The order in which the epoll server tears a connection down, on the
  end-of-file path, the read-error path and the response path alike: the
  descriptor is closed first, and \<open>epoll_ctl(EPOLL_CTL_DEL)\<close> is issued for it
  afterwards, not before.
\<close>

theorem close_is_issued_before_epoll_del:
  "handle_event 4 3 5 (client_event (RdBytes [])) =
     [SysRead 5 4096, SysClose 5, SysEpollDel 4 5]
   \<and> handle_event 4 3 5 (client_event (RdError ECONNRESET)) =
     [SysRead 5 4096, SysClose 5, SysEpollDel 4 5]
   \<and> handle_event 4 3 5 (client_event (RdBytes ''ping'')) =
     [SysRead 5 4096, SysWrite 5 response, SysClose 5, SysEpollDel 4 5]"
  by (simp add: handle_event_def client_event_def)

text \<open>
  C6.  With \<open>fcntl(listen_fd, F_GETFL)\<close> failing, \<open>make_socket_non_blocking\<close>
  returns \<open>-1\<close>, and \<open>main\<close> goes on: it creates the epoll instance, registers
  the listening socket and enters the loop, printing no diagnostic and not
  returning 1.
\<close>

theorem listener_non_blocking_failure_is_ignored:
  "fst (make_socket_non_blocking 3 (- 1) 0) = - 1
   \<and> http_server_main \<lparr>se_socket = 3, se_bind = 0, se_listen = 0, se_getfl = - 1,
        se_setfl = 0, se_epoll_create = 4, se_epoll_ctl = 0\<rparr> [] =
      (Running, [SysSocket, SysBind 3, SysListen 3, SysFcntlGet 3, SysEpollCreate,
         SysEpollAdd 4 3 EPOLLIN, Cout ''HTTP server running on port 8080''])"
  by (simp add: http_server_main_def make_socket_non_blocking_def)

section \<open>Properties of both servers\<close>

text \<open>
  C8.  A read that returns zero bytes: the epoll server closes the descriptor
  and asks for its removal from the epoll set, and writes nothing to it; the
  poll server closes the descriptor and marks its slot free, and writes nothing
  to it.
\<close>

theorem eof_closes_without_response:
  assumes "d \<noteq> listen_fd"
    and "fst (sys_read (ee_read env) 4096 (ee_buf env)) = 0"
    and "i < length fds"
    and "fd (fds ! i) \<noteq> - 1"
    and "revents (fds ! i) AND POLLIN \<noteq> 0"
    and "fst (sys_read rd (length buffer - 1) buffer) = 0"
  shows "closed_fds (handle_event epoll_fd listen_fd d env) = [d]
     \<and> SysEpollDel epoll_fd d \<in> set (handle_event epoll_fd listen_fd d env)
     \<and> written d (handle_event epoll_fd listen_fd d env) = []
     \<and> closed_fds (snd (service_client i rd fds)) = [fd (fds ! i)]
     \<and> fd (fst (service_client i rd fds) ! i) = - 1
     \<and> written (fd (fds ! i)) (snd (service_client i rd fds)) = []"
proof -
  have epoll: "handle_event epoll_fd listen_fd d env =
      [SysRead d 4096, SysClose d, SysEpollDel epoll_fd d]"
    using assms(1,2) by (simp add: handle_event_def)
  have poll: "service_client i rd fds =
      (fds[i := (fds ! i)\<lparr>fd := - 1\<rparr>],
       [SysRead (fd (fds ! i)) 1023, Cout ''Client disconnected'', SysClose (fd (fds ! i))])"
    using assms(4-6) by (simp add: service_client_disconnect)
  show ?thesis
    using assms(3) by (simp add: epoll poll)
qed

theorem eof_closes_without_response_witness:
  "(5::int) \<noteq> 3
   \<and> fst (sys_read (ee_read (client_event (RdBytes []))) 4096
          (ee_buf (client_event (RdBytes [])))) = 0
   \<and> 1 < length one_client_ready
   \<and> fd (one_client_ready ! 1) \<noteq> - 1
   \<and> revents (one_client_ready ! 1) AND POLLIN \<noteq> 0
   \<and> fst (sys_read (RdBytes []) (length buffer - 1) buffer) = 0
   \<and> closed_fds (handle_event 4 3 5 (client_event (RdBytes []))) = [5]
   \<and> written 5 (handle_event 4 3 5 (client_event (RdBytes []))) = []
   \<and> closed_fds (snd (service_client 1 (RdBytes []) one_client_ready)) = [5]
   \<and> fd (fst (service_client 1 (RdBytes []) one_client_ready) ! 1) = - 1
   \<and> written 5 (snd (service_client 1 (RdBytes []) one_client_ready)) = []"
proof -
  have h1: "(5::int) \<noteq> 3"
    by simp
  have h2: "fst (sys_read (ee_read (client_event (RdBytes []))) 4096
          (ee_buf (client_event (RdBytes [])))) = 0"
    by (simp add: client_event_def)
  have h3: "1 < length one_client_ready"
    by (rule one_client_ready_slot)
  have h4: "fd (one_client_ready ! 1) \<noteq> - 1"
    using one_client_ready_slot(2) by simp
  have h5: "revents (one_client_ready ! 1) AND POLLIN \<noteq> 0"
    by (rule one_client_ready_slot)
  have h6: "fst (sys_read (RdBytes []) (length buffer - 1) buffer) = 0"
    by simp
  show ?thesis
    using eof_closes_without_response [OF h1 h2 h3 h4 h5 h6, of 4]
      h2 h3 h4 h5 h6 one_client_ready_slot(2)
    by simp
qed

text \<open>
  C5.  As amended: neither server looks at \<open>errno\<close>.  A read that returns a
  negative value closes the connection whatever the error is, would-block
  included, and what the server does is the same for every error number.  The
  epoll server closes the descriptor, asks for its removal from the epoll set
  and writes nothing to it; the poll server closes the descriptor and marks its
  slot free.
\<close>

theorem failed_read_closes_whatever_errno:
  assumes "d \<noteq> listen_fd"
    and "ee_read env = RdError e"
    and "i < length fds"
    and "fd (fds ! i) \<noteq> - 1"
    and "revents (fds ! i) AND POLLIN \<noteq> 0"
  shows "fst (sys_read (RdError e) 4096 (ee_buf env)) < 0
     \<and> closed_fds (handle_event epoll_fd listen_fd d env) = [d]
     \<and> SysEpollDel epoll_fd d \<in> set (handle_event epoll_fd listen_fd d env)
     \<and> written d (handle_event epoll_fd listen_fd d env) = []
     \<and> handle_event epoll_fd listen_fd d (env\<lparr>ee_read := RdError e'\<rparr>) =
         handle_event epoll_fd listen_fd d env
     \<and> closed_fds (snd (service_client i (RdError e) fds)) = [fd (fds ! i)]
     \<and> fd (fst (service_client i (RdError e) fds) ! i) = - 1
     \<and> service_client i (RdError e') fds = service_client i (RdError e) fds"
proof -
  have epoll: "handle_event epoll_fd listen_fd d env =
      [SysRead d 4096, SysClose d, SysEpollDel epoll_fd d]"
    using assms(1,2) by (simp add: handle_event_def)
  have epoll': "handle_event epoll_fd listen_fd d (env\<lparr>ee_read := RdError e'\<rparr>) =
      [SysRead d 4096, SysClose d, SysEpollDel epoll_fd d]"
    using assms(1) by (simp add: handle_event_def)
  have "fst (sys_read (RdError e) (length buffer - 1) buffer) \<le> 0"
    by simp
  with assms(4,5) have poll: "service_client i (RdError e) fds =
      (fds[i := (fds ! i)\<lparr>fd := - 1\<rparr>],
       [SysRead (fd (fds ! i)) 1023, Cout ''Client disconnected'', SysClose (fd (fds ! i))])"
    by (rule service_client_disconnect)
  have same: "service_client i (RdError e') fds = service_client i (RdError e) fds"
    by (simp add: service_client_def)
  show ?thesis
    using assms(3) same by (simp add: epoll epoll' poll)
qed

theorem failed_read_closes_whatever_errno_witness:
  "(5::int) \<noteq> 3
   \<and> ee_read (client_event (RdError EAGAIN)) = RdError EAGAIN
   \<and> 1 < length one_client_ready
   \<and> fd (one_client_ready ! 1) \<noteq> - 1
   \<and> revents (one_client_ready ! 1) AND POLLIN \<noteq> 0
   \<and> closed_fds (handle_event 4 3 5 (client_event (RdError EAGAIN))) = [5]
   \<and> SysEpollDel 4 5 \<in> set (handle_event 4 3 5 (client_event (RdError EAGAIN)))
   \<and> closed_fds (snd (service_client 1 (RdError EAGAIN) one_client_ready)) = [5]
   \<and> fd (fst (service_client 1 (RdError EAGAIN) one_client_ready) ! 1) = - 1"
proof -
  have h1: "(5::int) \<noteq> 3"
    by simp
  have h2: "ee_read (client_event (RdError EAGAIN)) = RdError EAGAIN"
    by (simp add: client_event_def)
  have h3: "1 < length one_client_ready"
    by (rule one_client_ready_slot)
  have h4: "fd (one_client_ready ! 1) \<noteq> - 1"
    using one_client_ready_slot(2) by simp
  have h5: "revents (one_client_ready ! 1) AND POLLIN \<noteq> 0"
    by (rule one_client_ready_slot)
  show ?thesis
    using failed_read_closes_whatever_errno [OF h1 h2 h3 h4 h5, of 4 ECONNRESET]
      h2 h3 h4 h5 one_client_ready_slot(2)
    by simp
qed

text \<open>
  The statement as the specification words it fails in the epoll server, whose
  client sockets are the non-blocking ones: the read on descriptor 5 returns
  \<open>-1\<close> with \<open>errno = EAGAIN\<close>, and the server closes descriptor 5 and asks for
  its removal from the epoll set.
\<close>

theorem would_block_read_closes_counterexample:
  "fst (sys_read (ee_read (client_event (RdError EAGAIN))) 4096
          (ee_buf (client_event (RdError EAGAIN)))) < 0
   \<and> SysClose 5 \<in> set (handle_event 4 3 5 (client_event (RdError EAGAIN)))
   \<and> SysEpollDel 4 5 \<in> set (handle_event 4 3 5 (client_event (RdError EAGAIN)))
   \<and> handle_event 4 3 5 (client_event (RdError EAGAIN)) =
       handle_event 4 3 5 (client_event (RdError ECONNRESET))"
  by (simp add: handle_event_def client_event_def)

section \<open>Properties of the poll server\<close>

text \<open>
  C2.  As amended: the two strategies differ on a positive read.  In the epoll
  server every read on a client descriptor that returns a positive count has
  the response written to that descriptor and the descriptor closed.  In the
  poll server a read on an occupied, ready slot that returns a positive count
  only prints the received bytes: the table is unchanged (the slot stays
  occupied), nothing is written to the descriptor and nothing is closed.
\<close>

theorem poll_positive_read_only_logs:
  assumes "fd (fds ! i) \<noteq> - 1"
    and "revents (fds ! i) AND POLLIN \<noteq> 0"
    and "0 < fst (sys_read rd (length buffer - 1) buffer)"
    and "d \<noteq> listen_fd"
    and "0 < fst (sys_read (ee_read env) 4096 (ee_buf env))"
  shows "service_client i rd fds =
           (fds, [SysRead (fd (fds ! i)) 1023,
                  Cout (''Received data from client: ''
                        @ takeWhile (\<lambda>c. c \<noteq> NUL) (snd (sys_read rd 1023 buffer)))])
         \<and> written (fd (fds ! i)) (snd (service_client i rd fds)) = []
         \<and> closed_fds (snd (service_client i rd fds)) = []
         \<and> fst (service_client i rd fds) = fds
         \<and> written d (handle_event epoll_fd listen_fd d env) = [response]
         \<and> closed_fds (handle_event epoll_fd listen_fd d env) = [d]
         \<and> written d (handle_event epoll_fd listen_fd d env)
             \<noteq> written (fd (fds ! i)) (snd (service_client i rd fds))"
proof -
  have len: "length buffer - 1 = 1023"
    by (simp add: buffer_def)
  have "service_client i rd fds =
          (fds, [SysRead (fd (fds ! i)) (length buffer - 1),
                 print_buffer (snd (sys_read rd (length buffer - 1) buffer))])"
    using assms(1-3) by (simp add: service_client_def Let_def)
  then have poll: "service_client i rd fds =
          (fds, [SysRead (fd (fds ! i)) 1023,
                 Cout (''Received data from client: ''
                        @ takeWhile (\<lambda>c. c \<noteq> NUL) (snd (sys_read rd 1023 buffer)))])"
    unfolding print_buffer_after_read unfolding len .
  have epoll: "handle_event epoll_fd listen_fd d env =
       [SysRead d 4096, SysWrite d response, SysClose d, SysEpollDel epoll_fd d]"
    using assms(4,5) by (simp add: handle_event_def)
  show ?thesis
    unfolding epoll using poll by simp
qed

theorem poll_positive_read_only_logs_witness:
  "fd (one_client_ready ! 1) \<noteq> - 1
   \<and> revents (one_client_ready ! 1) AND POLLIN \<noteq> 0
   \<and> 0 < fst (sys_read (RdBytes ''ping'') (length buffer - 1) buffer)
   \<and> (5::int) \<noteq> 3
   \<and> 0 < fst (sys_read (ee_read (client_event (RdBytes ''ping''))) 4096
              (ee_buf (client_event (RdBytes ''ping''))))
   \<and> fst (service_client 1 (RdBytes ''ping'') one_client_ready) = one_client_ready
   \<and> written 5 (snd (service_client 1 (RdBytes ''ping'') one_client_ready)) = []
   \<and> closed_fds (snd (service_client 1 (RdBytes ''ping'') one_client_ready)) = []
   \<and> written 5 (handle_event 4 3 5 (client_event (RdBytes ''ping''))) = [response]
   \<and> closed_fds (handle_event 4 3 5 (client_event (RdBytes ''ping''))) = [5]"
proof -
  have h1: "fd (one_client_ready ! 1) \<noteq> - 1"
    using one_client_ready_slot(2) by simp
  have h2: "revents (one_client_ready ! 1) AND POLLIN \<noteq> 0"
    by (rule one_client_ready_slot)
  have h3: "0 < fst (sys_read (RdBytes ''ping'') (length buffer - 1) buffer)"
    by (simp add: buffer_def)
  have h4: "(5::int) \<noteq> 3"
    by simp
  have h5: "0 < fst (sys_read (ee_read (client_event (RdBytes ''ping''))) 4096
              (ee_buf (client_event (RdBytes ''ping''))))"
    by (simp add: client_event_def)
  show ?thesis
    using poll_positive_read_only_logs [OF h1 h2 h3 h4 h5, of 4]
      h1 h2 h3 h5 one_client_ready_slot(2)
    by simp
qed

text \<open>
  The statement as the specification words it fails on this run of the poll
  server: a client is accepted as descriptor 5 and sends \<open>ping\<close>; the read returns
  4, and the server neither writes the response to descriptor 5 nor closes it,
  and it is still looping.  The epoll server on the same read writes the response.
\<close>

theorem poll_positive_read_no_response_counterexample:
  "0 < fst (sys_read (RdBytes ''ping'') (length buffer - 1) buffer)
   \<and> server_main server_ok [connect_round 5, data_round 1 (RdBytes ''ping'')] =
     (Running,
      [SysSocket, SysBind 3, SysListen 3, Cout ''TCP Server started on port 8080'',
       SysPoll, SysAccept 3, Cout ''New connection accepted'',
       SysPoll, SysRead 5 1023, Cout ''Received data from client: ping''])
   \<and> written 5 (snd (server_main server_ok [connect_round 5, data_round 1 (RdBytes ''ping'')]))
       \<noteq> [response]
   \<and> SysClose 5 \<notin> set (snd (server_main server_ok
         [connect_round 5, data_round 1 (RdBytes ''ping'')]))
   \<and> written 5 (handle_event 4 3 5 (client_event (RdBytes ''ping''))) = [response]"
  by code_simp

text \<open>
  C3.  Eleven clients connect to the poll server, one per round, as
  descriptors 4 to 14.  The first ten fill the slots 1 to 10.  The eleventh is
  accepted with the table full: descriptor 14 is put in no slot and is not
  closed; no descriptor is closed in the whole run.
\<close>

theorem accept_on_full_table_leaks_descriptor:
  "map fd (fst (snd (poll_loop 3 (map connect_round [4, 5, 6, 7, 8, 9, 10, 11, 12, 13, 14])
       (init_fds 3 mem0)))) = [3, 4, 5, 6, 7, 8, 9, 10, 11, 12, 13]
   \<and> closed_fds (snd (snd (poll_loop 3 (map connect_round [4, 5, 6, 7, 8, 9, 10, 11, 12, 13, 14])
       (init_fds 3 mem0)))) = []
   \<and> \<not> fst (poll_loop 3 (map connect_round [4, 5, 6, 7, 8, 9, 10, 11, 12, 13, 14])
       (init_fds 3 mem0))"
  by code_simp

text \<open>
  C7.  Socket, bind and listen succeed and the first \<open>poll\<close> fails: the poll
  server prints \<open>Poll failed\<close>, leaves the loop, closes the listening socket and
  returns 0.
\<close>

theorem poll_failure_exits_with_zero:
  "server_main server_ok [failed_round] =
     (Exited 0,
      [SysSocket, SysBind 3, SysListen 3, Cout ''TCP Server started on port 8080'',
       SysPoll, Perror ''Poll failed'', SysClose 3])"
  by (simp add: server_main_def server_ok_def failed_round_def)

text \<open>
  C9.  Releasing a slot is idempotent.  Once the loop body has released slot
  \<open>i\<close> (its read returned zero or less: the descriptor is closed once and the
  slot's \<open>fd\<close> is \<open>-1\<close>), running the body on slot \<open>i\<close> again, whatever the kernel
  would answer, leaves the table as it is and issues no call: over both runs
  the descriptor is closed exactly once.
\<close>

theorem release_is_idempotent:
  assumes "i < length fds"
    and "fd (fds ! i) \<noteq> - 1"
    and "revents (fds ! i) AND POLLIN \<noteq> 0"
    and "fst (sys_read rd (length buffer - 1) buffer) \<le> 0"
  shows "fd (fst (service_client i rd fds) ! i) = - 1
     \<and> closed_fds (snd (service_client i rd fds)) = [fd (fds ! i)]
     \<and> service_client i rd' (fst (service_client i rd fds)) = (fst (service_client i rd fds), [])
     \<and> closed_fds (snd (service_client i rd fds)
          @ snd (service_client i rd' (fst (service_client i rd fds)))) = [fd (fds ! i)]"
proof -
  have first: "service_client i rd fds =
      (fds[i := (fds ! i)\<lparr>fd := - 1\<rparr>],
       [SysRead (fd (fds ! i)) 1023, Cout ''Client disconnected'', SysClose (fd (fds ! i))])"
    using assms(2-4) by (rule service_client_disconnect)
  have released: "fd (fst (service_client i rd fds) ! i) = - 1"
    using assms(1) by (simp add: first)
  have second: "service_client i rd' (fst (service_client i rd fds)) =
      (fst (service_client i rd fds), [])"
    using released by (rule service_client_released)
  show ?thesis
    using released second by (simp add: first)
qed

theorem release_is_idempotent_witness:
  "1 < length one_client_ready
   \<and> fd (one_client_ready ! 1) \<noteq> - 1
   \<and> revents (one_client_ready ! 1) AND POLLIN \<noteq> 0
   \<and> fst (sys_read (RdBytes []) (length buffer - 1) buffer) \<le> 0
   \<and> closed_fds (snd (service_client 1 (RdBytes []) one_client_ready)) = [5]
   \<and> service_client 1 (RdBytes ''late'') (fst (service_client 1 (RdBytes []) one_client_ready)) =
       (fst (service_client 1 (RdBytes []) one_client_ready), [])"
proof -
  have h1: "1 < length one_client_ready"
    by (rule one_client_ready_slot)
  have h2: "fd (one_client_ready ! 1) \<noteq> - 1"
    using one_client_ready_slot(2) by simp
  have h3: "revents (one_client_ready ! 1) AND POLLIN \<noteq> 0"
    by (rule one_client_ready_slot)
  have h4: "fst (sys_read (RdBytes []) (length buffer - 1) buffer) \<le> 0"
    by simp
  show ?thesis
    using release_is_idempotent [OF h1 h2 h3 h4, of "RdBytes ''late''"]
      h1 h2 h3 h4 one_client_ready_slot(2)
    by simp
qed

text \<open>
  C10.  The read buffer of the poll server has 1024 bytes, all zero before the
  read.  Whatever the kernel answers, the read stores at most 1023 bytes, the
  buffer keeps its 1024 bytes and its last byte is still NUL: the buffer holds
  a C string of at most 1023 characters, and printing it never runs past the
  array.
\<close>

theorem read_buffer_nul_terminated:
  "length buffer = 1024
   \<and> set buffer = {NUL}
   \<and> fst (sys_read rd (length buffer - 1) buffer) \<le> 1023
   \<and> length (snd (sys_read rd (length buffer - 1) buffer)) = 1024
   \<and> snd (sys_read rd (length buffer - 1) buffer) ! 1023 = NUL
   \<and> c_str (snd (sys_read rd (length buffer - 1) buffer)) \<noteq> None
   \<and> length (takeWhile (\<lambda>c. c \<noteq> NUL) (snd (sys_read rd (length buffer - 1) buffer))) \<le> 1023
   \<and> ReadPastBuffer \<notin> set (snd (service_client i rd fds))"
proof -
  let ?b = "snd (sys_read rd (length buffer - 1) buffer)"
  have len: "length buffer = 1024" and st: "set buffer = {NUL}"
    by (simp_all add: buffer_def)
  have cnt: "fst (sys_read rd (length buffer - 1) buffer) \<le> 1023"
    using read_count_le [of rd "length buffer - 1" buffer] by (simp add: len)
  have cs: "c_str ?b \<noteq> None"
    using buffer_after_read_has_NUL [of rd] by (simp add: c_str_def)
  have "length (takeWhile (\<lambda>c. c \<noteq> NUL) ?b) < length ?b"
    by (rule takeWhile_length_less [OF buffer_after_read_has_NUL]) simp
  then have tw: "length (takeWhile (\<lambda>c. c \<noteq> NUL) ?b) \<le> 1023"
    using buffer_after_read_length [of rd] by simp
  have sc: "ReadPastBuffer \<notin> set (snd (service_client i rd fds))"
    using print_buffer_after_read [of rd] by (simp add: service_client_def Let_def)
  from len st cnt cs tw sc buffer_after_read_length [of rd] buffer_after_read_last [of rd]
  show ?thesis
    by simp
qed

end
